theory Spec2Isabelle
  imports Complex_Main
begin

section \<open>Values of the claims schema\<close>

text \<open>
  The embedding follows \<^verbatim>\<open>src/models/claims_schema.py\<close> and
  \<^verbatim>\<open>src/producers/claims_producer.py\<close>.

  Python's \<^verbatim>\<open>Decimal\<close> is modelled by \<open>rat\<close>: sums and differences of decimals are exact
  as long as the result has at most 28 significant digits (the default context precision),
  which is the range the monetary amounts of a claim live in.  \<^verbatim>\<open>Decimal('0.01')\<close> is
  \<open>1 / 100\<close>.  A naive UTC \<^verbatim>\<open>datetime\<close> is a point on the time line counted in seconds.
  An \<^verbatim>\<open>Optional\<close> attribute is an \<open>option\<close>; a \<^verbatim>\<open>Dict[str, _]\<close> is an association list.

  Where two classes of the source use the same attribute name the record fields carry the
  class as a prefix (\<open>dx_code\<close>, \<open>provider_address\<close>, ...), since record fields share one
  name space.
\<close>

type_synonym decimal = rat
type_synonym datetime = int

datatype ClaimType =
  MEDICAL | DENTAL | VISION | PRESCRIPTION | LABORATORY | RADIOLOGY | SURGERY
  | EMERGENCY | PREVENTIVE

datatype ClaimStatus =
  SUBMITTED | UNDER_REVIEW | APPROVED | DENIED | PAID | APPEALED | CLOSED

datatype ProviderType =
  PHYSICIAN | HOSPITAL | CLINIC | LABORATORY_PROVIDER | PHARMACY | SPECIALIST
  | NURSE_PRACTITIONER | PHYSICIAN_ASSISTANT

text \<open>A pydantic \<^verbatim>\<open>ValidationError\<close> carries one (field, message) entry per failed field.\<close>

datatype validation_error = ValidationError "(string \<times> string) list"

record DiagnosisCode =
  dx_code :: string
  dx_description :: string
  primary :: bool
  severity :: "string option"

record ProcedureCode =
  code :: string
  description :: string
  modifier :: "string option"
  units :: int

record ClaimLine =
  line_id :: string
  procedure_code :: ProcedureCode
  diagnosis_codes :: "DiagnosisCode list"
  service_date :: datetime
  billed_amount :: decimal
  allowed_amount :: "decimal option"
  paid_amount :: "decimal option"
  place_of_service :: string
  rendering_provider_id :: string

record Provider =
  provider_id :: string
  provider_name :: string
  provider_type :: ProviderType
  npi :: string
  tax_id :: "string option"
  provider_address :: "(string \<times> string) list"
  provider_phone :: "string option"
  specialty :: "string option"

record Patient =
  patient_id :: string
  member_id :: string
  first_name :: string
  last_name :: string
  date_of_birth :: datetime
  gender :: string
  patient_address :: "(string \<times> string) list"
  patient_phone :: "string option"

record Insurance =
  insurance_id :: string
  payer_name :: string
  payer_id :: string
  group_number :: string
  subscriber_number :: string
  plan_type :: string
  coverage_start_date :: datetime
  coverage_end_date :: "datetime option"

text \<open>
  \<^verbatim>\<open>MedicalClaim\<close>.  The attributes \<open>patient\<close>, \<open>insurance\<close> and \<open>provider\<close> are required
  by the constructor, so a constructed claim holds \<open>Some\<close> there; they are options because
  the producer's gate tests them for \<^verbatim>\<open>None\<close>.
\<close>

record MedicalClaim =
  claim_id :: string
  claim_number :: string
  claim_type :: ClaimType
  claim_status :: ClaimStatus
  patient :: "Patient option"
  insurance :: "Insurance option"
  provider :: "Provider option"
  claim_lines :: "ClaimLine list"
  total_billed_amount :: decimal
  total_allowed_amount :: "decimal option"
  total_paid_amount :: "decimal option"
  patient_responsibility :: "decimal option"
  date_of_service :: datetime
  claim_received_date :: datetime
  claim_processed_date :: "datetime option"
  claim_notes :: "string option"
  attachments :: "string list"
  metadata :: "(string \<times> string) list"

section \<open>Construction\<close>

text \<open>
  \<^verbatim>\<open>ProcedureCode\<close> declares no validator and no bound on \<^verbatim>\<open>units\<close>
  (\<^verbatim>\<open>units: int = Field(default=1, description=...)\<close>).  The last argument is \<open>None\<close> when
  the keyword is left out.
\<close>

definition new_ProcedureCode ::
  "string \<Rightarrow> string \<Rightarrow> string option \<Rightarrow> int option \<Rightarrow> validation_error + ProcedureCode" where
  "new_ProcedureCode c d m u =
     Inr \<lparr>code = c, description = d, modifier = m,
          units = (case u of None \<Rightarrow> 1 | Some n \<Rightarrow> n)\<rparr>"









section \<open>Recalculating the totals\<close>

text \<open>
  Truth value of an optional decimal, as \<^verbatim>\<open>if x\<close> and \<^verbatim>\<open>any(...)\<close> read it: \<^verbatim>\<open>None\<close> and
  a zero decimal are false.
\<close>

definition truthy :: "decimal option \<Rightarrow> bool" where
  "truthy v = (case v of None \<Rightarrow> False | Some d \<Rightarrow> d \<noteq> 0)"

text \<open>\<^verbatim>\<open>x or Decimal('0')\<close>.\<close>

definition or_zero :: "decimal option \<Rightarrow> decimal" where
  "or_zero v = (case v of None \<Rightarrow> 0 | Some d \<Rightarrow> if d \<noteq> 0 then d else 0)"

text \<open>
  \<^verbatim>\<open>MedicalClaim.calculate_totals\<close>.  The class sets no \<^verbatim>\<open>Config\<close>, so an assignment to
  an attribute stores the value and runs no validator; each assignment is a record update.
\<close>

definition calculate_totals :: "MedicalClaim \<Rightarrow> MedicalClaim" where
  "calculate_totals self =
     (let s1 = self\<lparr>total_billed_amount := sum_list (map billed_amount (claim_lines self))\<rparr>;
          s2 = (if list_ex (\<lambda>line. truthy (allowed_amount line)) (claim_lines s1)
                then s1\<lparr>total_allowed_amount :=
                          Some (sum_list (map (\<lambda>line. or_zero (allowed_amount line))
                                  (claim_lines s1)))\<rparr>
                else s1);
          s3 = (if list_ex (\<lambda>line. truthy (paid_amount line)) (claim_lines s2)
                then s2\<lparr>total_paid_amount :=
                          Some (sum_list (map (\<lambda>line. or_zero (paid_amount line))
                                  (claim_lines s2)))\<rparr>
                else s2)
      in case (total_allowed_amount s3, total_paid_amount s3) of
           (Some a, Some p) \<Rightarrow>
             if a \<noteq> 0 \<and> p \<noteq> 0 then s3\<lparr>patient_responsibility := Some (a - p)\<rparr> else s3
         | _ \<Rightarrow> s3)"

section \<open>The producer\<close>

text \<open>
  \<^verbatim>\<open>ClaimsProducer\<close> of \<^verbatim>\<open>claims_producer.py\<close>.  The Kafka client, the logger and the
  metrics collector are not part of the repository.  Of the client the model keeps what the
  producer hands to it and what it hands back: \<open>submitted\<close> lists the records passed to
  \<^verbatim>\<open>producer.send\<close>, \<open>flushes\<close> counts the calls of \<^verbatim>\<open>producer.flush\<close>, and an \<open>Env\<close> gives,
  for one call of \<^verbatim>\<open>send_claim\<close>, the clock readings, the callbacks the client invokes on
  the producer for this send and the result of \<^verbatim>\<open>future.get(timeout=30)\<close>.  Logging and
  metrics do not touch the state modelled here.
\<close>

record RecordMetadata =
  md_topic :: string
  md_partition :: int
  md_offset :: int
  md_value :: "string option"

text \<open>The dictionary \<^verbatim>\<open>self.stats\<close>, with its five fixed keys.\<close>

record Stats =
  messages_sent :: int
  messages_failed :: int
  bytes_sent :: int
  last_send_time :: "datetime option"
  errors :: "(datetime \<times> string) list"

text \<open>What \<^verbatim>\<open>_prepare_claim_message\<close> returns: \<^verbatim>\<open>claim.dict()\<close> and the \<^verbatim>\<open>_metadata\<close> entry.\<close>

record ClaimMessage =
  body :: MedicalClaim
  produced_at :: datetime
  producer_version :: string
  schema_version :: string

text \<open>The arguments of one \<^verbatim>\<open>producer.send(topic=, key=, value=, headers=)\<close>.\<close>

record ProducerRecord =
  pr_topic :: string
  pr_key :: string
  pr_value :: ClaimMessage
  pr_header_claim_type :: ClaimType
  pr_header_provider_id :: string
  pr_header_timestamp :: int

record ClaimsProducer =
  topic_raw :: string
  stats :: Stats
  submitted :: "ProducerRecord list"
  flushes :: nat

datatype completion_event = SuccessCallback RecordMetadata | ErrorCallback string

text \<open>
  \<^verbatim>\<open>future.get(timeout=30)\<close> returns the record metadata, raises \<^verbatim>\<open>KafkaTimeoutError\<close>, or
  raises another exception (with its text).
\<close>

datatype future_result = Metadata RecordMetadata | KafkaTimeoutError | KafkaError string

record Env =
  utcnow :: datetime
  time_time :: int
  callbacks :: "completion_event list"
  future_get :: future_result

text \<open>\<^verbatim>\<open>_on_send_success(self, record_metadata)\<close>.\<close>

definition on_send_success :: "datetime \<Rightarrow> RecordMetadata \<Rightarrow> ClaimsProducer \<Rightarrow> ClaimsProducer" where
  "on_send_success now record_metadata self =
     self\<lparr>stats := (stats self)
       \<lparr>messages_sent := messages_sent (stats self) + 1,
        bytes_sent := bytes_sent (stats self)
          + (case md_value record_metadata of
               None \<Rightarrow> 0
             | Some v \<Rightarrow> if v \<noteq> [] then int (length v) else 0),
        last_send_time := Some now\<rparr>\<rparr>"

text \<open>\<^verbatim>\<open>_on_send_error(self, exc)\<close>.\<close>

definition on_send_error :: "datetime \<Rightarrow> string \<Rightarrow> ClaimsProducer \<Rightarrow> ClaimsProducer" where
  "on_send_error now exc self =
     self\<lparr>stats := (stats self)
       \<lparr>messages_failed := messages_failed (stats self) + 1,
        errors := errors (stats self) @ [(now, exc)]\<rparr>\<rparr>"

fun run_callbacks :: "datetime \<Rightarrow> completion_event list \<Rightarrow> ClaimsProducer \<Rightarrow> ClaimsProducer" where
  "run_callbacks now [] self = self"
| "run_callbacks now (SuccessCallback md # evs) self =
     run_callbacks now evs (on_send_success now md self)"
| "run_callbacks now (ErrorCallback exc # evs) self =
     run_callbacks now evs (on_send_error now exc self)"

text \<open>
  \<^verbatim>\<open>_validate_claim\<close>.  \<^verbatim>\<open>not s\<close> on a string is \<open>s = []\<close>; the comparisons of a decimal
  with 0 and of two naive datetimes do not raise, so the \<^verbatim>\<open>except\<close> branch has no case.
\<close>

definition validate_claim :: "datetime \<Rightarrow> MedicalClaim \<Rightarrow> bool" where
  "validate_claim now claim =
     (if claim_id claim = [] \<or> claim_number claim = [] then False
      else if patient claim = None \<or> provider claim = None \<or> insurance claim = None then False
      else if claim_lines claim = [] \<or> length (claim_lines claim) = 0 then False
      else if total_billed_amount claim \<le> 0 then False
      else if date_of_service claim > now then False
      else True)"

definition prepare_claim_message :: "datetime \<Rightarrow> MedicalClaim \<Rightarrow> ClaimMessage" where
  "prepare_claim_message now claim =
     \<lparr>body = claim, produced_at = now, producer_version = ''1.0.0'',
      schema_version = ''1.0.0''\<rparr>"

text \<open>\<^verbatim>\<open>topic or self.topic_raw\<close>.\<close>

definition topic_or :: "string option \<Rightarrow> string \<Rightarrow> string" where
  "topic_or topic dflt = (case topic of None \<Rightarrow> dflt | Some t \<Rightarrow> if t \<noteq> [] then t else dflt)"

text \<open>\<^verbatim>\<open>self.stats['messages_failed'] += 1\<close>, in the two \<^verbatim>\<open>except\<close> branches of \<^verbatim>\<open>send_claim\<close>.\<close>

definition count_failed :: "ClaimsProducer \<Rightarrow> ClaimsProducer" where
  "count_failed self =
     self\<lparr>stats := (stats self)\<lparr>messages_failed := messages_failed (stats self) + 1\<rparr>\<rparr>"

text \<open>
  \<^verbatim>\<open>send_claim\<close>.  The whole body stands in \<^verbatim>\<open>try\<close>; both handlers count a failure and
  return \<^verbatim>\<open>False\<close>.  A claim without provider would raise while the headers are built,
  before the client is called.
\<close>

definition send_claim ::
  "ClaimsProducer \<Rightarrow> Env \<Rightarrow> MedicalClaim \<Rightarrow> string option \<Rightarrow> bool \<times> ClaimsProducer" where
  "send_claim self env claim topic =
     (if \<not> validate_claim (utcnow env) claim then (False, self)
      else
        (let target_topic = topic_or topic (topic_raw self);
             message = prepare_claim_message (utcnow env) claim;
             key = claim_id claim
         in case provider claim of
              None \<Rightarrow> (False, count_failed self)
            | Some p \<Rightarrow>
                (let self1 = self\<lparr>submitted := submitted self @
                       [\<lparr>pr_topic = target_topic, pr_key = key, pr_value = message,
                         pr_header_claim_type = claim_type claim,
                         pr_header_provider_id = provider_id p,
                         pr_header_timestamp = time_time env\<rparr>]\<rparr>;
                     self2 = run_callbacks (utcnow env) (callbacks env) self1
                 in case future_get env of
                      Metadata record_metadata \<Rightarrow> (True, self2)
                    | KafkaTimeoutError \<Rightarrow> (False, count_failed self2)
                    | KafkaError e \<Rightarrow> (False, count_failed self2))))"

record ClaimBatch =
  batch_id :: string
  batch_number :: string
  claims :: "MedicalClaim list"
  batch_date :: datetime
  source_system :: string
  total_claims :: int
  batch_total_billed_amount :: decimal





section \<open>Sample data\<close>

definition sample_patient :: Patient where
  "sample_patient =
     \<lparr>patient_id = ''PAT001'', member_id = ''MEM001'', first_name = ''John'',
      last_name = ''Doe'', date_of_birth = 315532800, gender = ''M'',
      patient_address = [(''city'', ''Anytown'')], patient_phone = None\<rparr>"

definition sample_provider :: Provider where
  "sample_provider =
     \<lparr>provider_id = ''PROV001'', provider_name = ''Dr. Smith'', provider_type = PHYSICIAN,
      npi = ''1234567890'', tax_id = None, provider_address = [(''city'', ''Anytown'')],
      provider_phone = None, specialty = None\<rparr>"

definition sample_insurance :: Insurance where
  "sample_insurance =
     \<lparr>insurance_id = ''INS001'', payer_name = ''Health Insurance Co'',
      payer_id = ''PAYER001'', group_number = ''GRP001'', subscriber_number = ''SUB001'',
      plan_type = ''PPO'', coverage_start_date = 1672531200, coverage_end_date = None\<rparr>"

definition sample_line :: "decimal \<Rightarrow> decimal option \<Rightarrow> decimal option \<Rightarrow> ClaimLine" where
  "sample_line billed allowed paid =
     \<lparr>line_id = ''L1'',
      procedure_code = \<lparr>code = ''99213'', description = ''Office visit'', modifier = None,
                         units = 1\<rparr>,
      diagnosis_codes = [\<lparr>dx_code = ''Z00.00'', dx_description = ''General examination'',
                          primary = True, severity = None\<rparr>],
      service_date = 1690848000, billed_amount = billed, allowed_amount = allowed,
      paid_amount = paid, place_of_service = ''11'', rendering_provider_id = ''PROV001''\<rparr>"


text \<open>The claim that \<^verbatim>\<open>MedicalClaim(**sample_kwargs ls tot)\<close> builds when it is valid.\<close>

definition sample_claim :: "ClaimLine list \<Rightarrow> decimal \<Rightarrow> MedicalClaim" where
  "sample_claim ls tot =
     \<lparr>claim_id = ''c-0001'', claim_number = ''CLM001'', claim_type = MEDICAL,
      claim_status = SUBMITTED, patient = Some sample_patient,
      insurance = Some sample_insurance, provider = Some sample_provider,
      claim_lines = ls, total_billed_amount = tot, total_allowed_amount = None,
      total_paid_amount = None, patient_responsibility = None,
      date_of_service = 1690848000, claim_received_date = 1700000000,
      claim_processed_date = None, claim_notes = None, attachments = [], metadata = []\<rparr>"


text \<open>A claim that passes the producer's gate at time 1700000000, and the same claim dated one second later.\<close>

definition valid_claim :: MedicalClaim where
  "valid_claim = sample_claim [sample_line 150 None None] 150"

definition future_claim :: MedicalClaim where
  "future_claim = valid_claim\<lparr>date_of_service := 1700000001\<rparr>"


text \<open>A producer as \<^verbatim>\<open>__init__\<close> leaves it: all counters 0, nothing submitted.\<close>

definition sample_producer :: ClaimsProducer where
  "sample_producer =
     \<lparr>topic_raw = ''medical-claims-raw'',
      stats = \<lparr>messages_sent = 0, messages_failed = 0, bytes_sent = 0, last_send_time = None,
               errors = []\<rparr>,
      submitted = [], flushes = 0\<rparr>"

definition sample_metadata :: RecordMetadata where
  "sample_metadata =
     \<lparr>md_topic = ''medical-claims-raw'', md_partition = 0, md_offset = 42, md_value = None\<rparr>"

text \<open>
  Two clients.  The first reports every completion to the callback of its kind, as the
  docstrings of \<^verbatim>\<open>_on_send_success\<close> (``callback for successful message sends'') and
  \<^verbatim>\<open>_on_send_error\<close> (``callback for failed message sends'') describe; the second invokes no
  callback at all.
\<close>

definition reporting_env :: "datetime \<Rightarrow> future_result \<Rightarrow> Env" where
  "reporting_env now result =
     \<lparr>utcnow = now, time_time = now,
      callbacks =
        (case result of
           Metadata md \<Rightarrow> [SuccessCallback md]
         | KafkaTimeoutError \<Rightarrow> [ErrorCallback ''KafkaTimeoutError'']
         | KafkaError e \<Rightarrow> [ErrorCallback e]),
      future_get = result\<rparr>"

definition silent_env :: "datetime \<Rightarrow> future_result \<Rightarrow> Env" where
  "silent_env now result = \<lparr>utcnow = now, time_time = now, callbacks = [], future_get = result\<rparr>"



section \<open>Predicates of the statements\<close>




text \<open>The send was acknowledged: \<^verbatim>\<open>future.get\<close> returned.\<close>

definition is_acknowledged :: "future_result \<Rightarrow> bool" where
  "is_acknowledged r = (case r of Metadata _ \<Rightarrow> True | _ \<Rightarrow> False)"





section \<open>Construction and recalculation: auxiliary facts\<close>




lemma sample_line_sel:
  "billed_amount (sample_line b a p) = b"
  "allowed_amount (sample_line b a p) = a"
  "paid_amount (sample_line b a p) = p"
  by (simp_all add: sample_line_def)

lemma sample_claim_sel:
  "claim_lines (sample_claim ls t) = ls"
  "total_billed_amount (sample_claim ls t) = t"
  "total_allowed_amount (sample_claim ls t) = None"
  "total_paid_amount (sample_claim ls t) = None"
  "patient_responsibility (sample_claim ls t) = None"
  by (simp_all add: sample_claim_def)




lemma calc_total_billed:
  "total_billed_amount (calculate_totals c) = sum_list (map billed_amount (claim_lines c))"
  by (simp add: calculate_totals_def Let_def split: option.splits)

lemma calc_total_allowed:
  "total_allowed_amount (calculate_totals c) =
     (if list_ex (\<lambda>line. truthy (allowed_amount line)) (claim_lines c)
      then Some (sum_list (map (\<lambda>line. or_zero (allowed_amount line)) (claim_lines c)))
      else total_allowed_amount c)"
  by (simp add: calculate_totals_def Let_def split: option.splits)

lemma calc_total_paid:
  "total_paid_amount (calculate_totals c) =
     (if list_ex (\<lambda>line. truthy (paid_amount line)) (claim_lines c)
      then Some (sum_list (map (\<lambda>line. or_zero (paid_amount line)) (claim_lines c)))
      else total_paid_amount c)"
  by (simp add: calculate_totals_def Let_def split: option.splits)

lemma calc_patient_responsibility:
  "patient_responsibility (calculate_totals c) =
     (case (total_allowed_amount (calculate_totals c), total_paid_amount (calculate_totals c)) of
        (Some a, Some p) \<Rightarrow> if a \<noteq> 0 \<and> p \<noteq> 0 then Some (a - p) else patient_responsibility c
      | _ \<Rightarrow> patient_responsibility c)"
  by (simp add: calculate_totals_def Let_def split: option.splits)





section \<open>Construction of a claim\<close>



section \<open>The recalculated totals\<close>

text \<open>
  Claim C2.  The recalculation rule tests the amounts by their truth value, and a zero
  decimal is false.  On a claim whose only line is billed 100, allowed 80 and paid 0 (a
  paid amount that is present), \<^verbatim>\<open>calculate_totals\<close> sets the billed total to 100 and the
  allowed total to 80, but leaves \<^verbatim>\<open>total_paid_amount\<close> and \<^verbatim>\<open>patient_responsibility\<close> unset,
  where the rule of the data model gives 0 and 80.
\<close>

theorem calculate_totals_zero_paid:
  "paid_amount (sample_line 100 (Some 80) (Some 0)) = Some 0 \<and>
   total_billed_amount (calculate_totals (sample_claim [sample_line 100 (Some 80) (Some 0)] 100)) = 100 \<and>
   total_allowed_amount (calculate_totals (sample_claim [sample_line 100 (Some 80) (Some 0)] 100)) = Some 80 \<and>
   total_paid_amount (calculate_totals (sample_claim [sample_line 100 (Some 80) (Some 0)] 100)) = None \<and>
   patient_responsibility (calculate_totals (sample_claim [sample_line 100 (Some 80) (Some 0)] 100)) = None"
  by (simp add: calc_total_billed calc_total_allowed calc_total_paid calc_patient_responsibility
      sample_claim_sel sample_line_sel truthy_def or_zero_def)





section \<open>The invariants under mutation\<close>




section \<open>Units of a procedure code\<close>

text \<open>
  Claim C9.  \<^verbatim>\<open>units\<close> is 1 when the keyword is left out, and any integer that is given is
  stored as it is: the field has no lower bound.
\<close>

theorem new_ProcedureCode_units:
  "new_ProcedureCode c d m None = Inr \<lparr>code = c, description = d, modifier = m, units = 1\<rparr> \<and>
   new_ProcedureCode c d m (Some n) = Inr \<lparr>code = c, description = d, modifier = m, units = n\<rparr>"
  by (simp add: new_ProcedureCode_def)

theorem new_ProcedureCode_units_witness:
  "new_ProcedureCode ''99213'' ''Office visit'' None None
     = Inr \<lparr>code = ''99213'', description = ''Office visit'', modifier = None, units = 1\<rparr> \<and>
   new_ProcedureCode ''99213'' ''Office visit'' None (Some (- 2))
     = Inr \<lparr>code = ''99213'', description = ''Office visit'', modifier = None, units = - 2\<rparr>"
  using new_ProcedureCode_units[of "''99213''" "''Office visit''" None "- 2"] by simp

text \<open>Constructing a procedure code with 0 units succeeds.\<close>

theorem new_ProcedureCode_zero_units:
  "new_ProcedureCode ''99213'' ''Office visit'' None (Some 0)
     = Inr \<lparr>code = ''99213'', description = ''Office visit'', modifier = None, units = 0\<rparr>"
  by (simp add: new_ProcedureCode_def)

section \<open>The producer: auxiliary facts\<close>

lemma validate_claim_iff:
  "validate_claim now c \<longleftrightarrow>
     claim_id c \<noteq> [] \<and> claim_number c \<noteq> [] \<and> patient c \<noteq> None \<and> provider c \<noteq> None \<and>
     insurance c \<noteq> None \<and> claim_lines c \<noteq> [] \<and> 0 < total_billed_amount c \<and>
     date_of_service c \<le> now"
  by (auto simp: validate_claim_def)

lemma send_claim_rejected:
  "\<not> validate_claim (utcnow env) c \<Longrightarrow> send_claim self env c topic = (False, self)"
  by (simp add: send_claim_def)

lemma send_claim_fst:
  "fst (send_claim self env c topic)
     = (validate_claim (utcnow env) c \<and> is_acknowledged (future_get env))"
  by (auto simp: send_claim_def Let_def is_acknowledged_def validate_claim_iff
      split: option.splits future_result.splits)

lemma run_callbacks_submitted: "submitted (run_callbacks now evs self) = submitted self"
  by (induction now evs self rule: run_callbacks.induct)
     (simp_all add: on_send_success_def on_send_error_def)

lemma run_callbacks_failed:
  "messages_failed (stats (run_callbacks now evs self))
     = messages_failed (stats self)
       + int (length (filter (\<lambda>ev. case ev of ErrorCallback _ \<Rightarrow> True | _ \<Rightarrow> False) evs))"
  by (induction now evs self rule: run_callbacks.induct)
     (simp_all add: on_send_success_def on_send_error_def)

lemma run_callbacks_sent:
  "messages_sent (stats (run_callbacks now evs self))
     = messages_sent (stats self)
       + int (length (filter (\<lambda>ev. case ev of SuccessCallback _ \<Rightarrow> True | _ \<Rightarrow> False) evs))"
  by (induction now evs self rule: run_callbacks.induct)
     (simp_all add: on_send_success_def on_send_error_def)

lemma send_claim_failed_count:
  "validate_claim (utcnow env) c \<Longrightarrow>
   messages_failed (stats (snd (send_claim self env c topic)))
     = messages_failed (stats self)
       + int (length (filter (\<lambda>ev. case ev of ErrorCallback _ \<Rightarrow> True | _ \<Rightarrow> False) (callbacks env)))
       + (if is_acknowledged (future_get env) then 0 else 1)"
  by (auto simp: send_claim_def Let_def is_acknowledged_def validate_claim_iff count_failed_def
      run_callbacks_failed split: option.splits future_result.splits)

lemma send_claim_sent_count:
  "validate_claim (utcnow env) c \<Longrightarrow>
   messages_sent (stats (snd (send_claim self env c topic)))
     = messages_sent (stats self)
       + int (length (filter (\<lambda>ev. case ev of SuccessCallback _ \<Rightarrow> True | _ \<Rightarrow> False) (callbacks env)))"
  by (auto simp: send_claim_def Let_def validate_claim_iff count_failed_def
      run_callbacks_sent split: option.splits future_result.splits)








lemma env_sel:
  "utcnow (reporting_env now r) = now"
  "future_get (reporting_env now r) = r"
  "utcnow (silent_env now r) = now"
  "future_get (silent_env now r) = r"
  "callbacks (silent_env now r) = []"
  "callbacks (reporting_env now (Metadata md)) = [SuccessCallback md]"
  "callbacks (reporting_env now KafkaTimeoutError) = [ErrorCallback ''KafkaTimeoutError'']"
  "callbacks (reporting_env now (KafkaError e)) = [ErrorCallback e]"
  by (simp_all add: reporting_env_def silent_env_def)

lemma valid_claim_passes: "validate_claim 1700000000 valid_claim"
  by (simp add: validate_claim_iff valid_claim_def sample_claim_def)


lemma future_claim_date: "date_of_service future_claim = 1700000001"
  by (simp add: future_claim_def)

lemma sample_producer_sel:
  "messages_sent (stats sample_producer) = 0"
  "messages_failed (stats sample_producer) = 0"
  "submitted sample_producer = []"
  by (simp_all add: sample_producer_def)




section \<open>Statistics of the producer\<close>

text \<open>
  Claim C3.  The statistics are written in two places: by the callbacks, and by the two
  \<^verbatim>\<open>except\<close> branches of \<^verbatim>\<open>send_claim\<close>.  With a client that reports a failed send to
  \<^verbatim>\<open>_on_send_error\<close>, one failed send of a valid claim is counted twice, by the callback and
  by the handler: \<^verbatim>\<open>messages_failed\<close> is 2 after one failure.  With a client that invokes
  no callback, a delivered send is not counted at all: \<^verbatim>\<open>messages_sent\<close> stays 0, since
  the success path of \<^verbatim>\<open>send_claim\<close> does not touch the statistics.
\<close>

theorem failed_send_counted_twice:
  "validate_claim 1700000000 valid_claim \<and>
   fst (send_claim sample_producer (reporting_env 1700000000 (KafkaError ''broker down''))
          valid_claim None) = False \<and>
   messages_failed (stats (snd (send_claim sample_producer
       (reporting_env 1700000000 (KafkaError ''broker down'')) valid_claim None))) = 2 \<and>
   fst (send_claim sample_producer (silent_env 1700000000 (Metadata sample_metadata))
          valid_claim None) = True \<and>
   messages_sent (stats (snd (send_claim sample_producer
       (silent_env 1700000000 (Metadata sample_metadata)) valid_claim None))) = 0"
  by (simp add: valid_claim_passes send_claim_fst send_claim_failed_count send_claim_sent_count
      env_sel is_acknowledged_def sample_producer_sel)

section \<open>Rejected claims\<close>

text \<open>
  Claim C5.  A claim that fails a gate of \<^verbatim>\<open>_validate_claim\<close> (no id or claim number; no
  patient, provider or insurance; no lines; a billed total that is not positive; a date of
  service after the current time, be it by one second) makes \<^verbatim>\<open>send_claim\<close> return \<^verbatim>\<open>False\<close>
  with the producer as it was: nothing is submitted to the client and no counter of the
  statistics changes.
\<close>

theorem rejected_claim_not_sent:
  assumes "claim_id c = [] \<or> claim_number c = [] \<or> patient c = None \<or> provider c = None
           \<or> insurance c = None \<or> claim_lines c = [] \<or> total_billed_amount c \<le> 0
           \<or> date_of_service c > utcnow env"
  shows "send_claim self env c topic = (False, self) \<and>
         submitted (snd (send_claim self env c topic)) = submitted self \<and>
         stats (snd (send_claim self env c topic)) = stats self"
proof -
  from assms have "\<not> validate_claim (utcnow env) c"
    by (auto simp: validate_claim_iff)
  then show ?thesis by (simp add: send_claim_rejected)
qed

theorem rejected_claim_not_sent_witness:
  "date_of_service future_claim > utcnow (reporting_env 1700000000 (Metadata sample_metadata)) \<and>
   date_of_service future_claim = utcnow (reporting_env 1700000000 (Metadata sample_metadata)) + 1 \<and>
   send_claim sample_producer (reporting_env 1700000000 (Metadata sample_metadata)) future_claim None
     = (False, sample_producer) \<and>
   submitted (snd (send_claim sample_producer (reporting_env 1700000000 (Metadata sample_metadata))
     future_claim None)) = [] \<and>
   messages_failed (stats (snd (send_claim sample_producer
     (reporting_env 1700000000 (Metadata sample_metadata)) future_claim None))) = 0 \<and>
   claim_lines (valid_claim\<lparr>claim_lines := []\<rparr>) = [] \<and>
   send_claim sample_producer (reporting_env 1700000000 (Metadata sample_metadata))
     (valid_claim\<lparr>claim_lines := []\<rparr>) None = (False, sample_producer) \<and>
   total_billed_amount (valid_claim\<lparr>total_billed_amount := 0\<rparr>) \<le> 0 \<and>
   send_claim sample_producer (reporting_env 1700000000 (Metadata sample_metadata))
     (valid_claim\<lparr>total_billed_amount := 0\<rparr>) None = (False, sample_producer) \<and>
   patient (valid_claim\<lparr>patient := None\<rparr>) = None \<and>
   send_claim sample_producer (reporting_env 1700000000 (Metadata sample_metadata))
     (valid_claim\<lparr>patient := None\<rparr>) None = (False, sample_producer) \<and>
   claim_number (valid_claim\<lparr>claim_number := []\<rparr>) = [] \<and>
   send_claim sample_producer (reporting_env 1700000000 (Metadata sample_metadata))
     (valid_claim\<lparr>claim_number := []\<rparr>) None = (False, sample_producer)"
proof -
  have h: "date_of_service future_claim > utcnow (reporting_env 1700000000 (Metadata sample_metadata))"
    by (simp add: future_claim_date env_sel)
  from h
    rejected_claim_not_sent[of future_claim "reporting_env 1700000000 (Metadata sample_metadata)"
      sample_producer None]
    rejected_claim_not_sent[of "valid_claim\<lparr>claim_lines := []\<rparr>"
      "reporting_env 1700000000 (Metadata sample_metadata)" sample_producer None]
    rejected_claim_not_sent[of "valid_claim\<lparr>total_billed_amount := 0\<rparr>"
      "reporting_env 1700000000 (Metadata sample_metadata)" sample_producer None]
    rejected_claim_not_sent[of "valid_claim\<lparr>patient := None\<rparr>"
      "reporting_env 1700000000 (Metadata sample_metadata)" sample_producer None]
    rejected_claim_not_sent[of "valid_claim\<lparr>claim_number := []\<rparr>"
      "reporting_env 1700000000 (Metadata sample_metadata)" sample_producer None]
  show ?thesis by (simp add: future_claim_date env_sel sample_producer_sel)
qed

section \<open>Batches\<close>




end
